theory Spec2Isabelle
  imports Complex_Main
begin

section \<open>JavaScript numbers\<close>

text \<open>
  Every quantity of \<^verbatim>\<open>calculator.js\<close> is a JavaScript number. A number is modelled
  as a real or as one of the three special values that the arithmetic of the language
  produces instead of failing: the two infinities and NaN. Division by zero, the square
  root of a negative number and comparisons with NaN are written out as the language
  defines them. Rounding is not modelled, and zero carries no sign (a zero divisor counts
  as \<open>+0\<close>).
\<close>

datatype jsnum = Num real | PInf | NInf | NaN

definition signed_inf :: "real \<Rightarrow> jsnum" where
  "signed_inf s = (if s = 0 then NaN else if 0 < s then PInf else NInf)"

fun jneg :: "jsnum \<Rightarrow> jsnum" where
  "jneg (Num x) = Num (- x)"
| "jneg PInf = NInf"
| "jneg NInf = PInf"
| "jneg NaN = NaN"

fun jadd :: "jsnum \<Rightarrow> jsnum \<Rightarrow> jsnum" where
  "jadd (Num x) (Num y) = Num (x + y)"
| "jadd NaN _ = NaN"
| "jadd _ NaN = NaN"
| "jadd PInf NInf = NaN"
| "jadd NInf PInf = NaN"
| "jadd PInf _ = PInf"
| "jadd _ PInf = PInf"
| "jadd NInf _ = NInf"
| "jadd _ NInf = NInf"

definition jsub :: "jsnum \<Rightarrow> jsnum \<Rightarrow> jsnum" where
  "jsub a b = jadd a (jneg b)"

fun jmul :: "jsnum \<Rightarrow> jsnum \<Rightarrow> jsnum" where
  "jmul (Num x) (Num y) = Num (x * y)"
| "jmul NaN _ = NaN"
| "jmul _ NaN = NaN"
| "jmul (Num x) PInf = signed_inf x"
| "jmul (Num x) NInf = signed_inf (- x)"
| "jmul PInf (Num y) = signed_inf y"
| "jmul NInf (Num y) = signed_inf (- y)"
| "jmul PInf PInf = PInf"
| "jmul PInf NInf = NInf"
| "jmul NInf PInf = NInf"
| "jmul NInf NInf = PInf"

fun jdiv :: "jsnum \<Rightarrow> jsnum \<Rightarrow> jsnum" where
  "jdiv (Num x) (Num y) = (if y = 0 then signed_inf x else Num (x / y))"
| "jdiv NaN _ = NaN"
| "jdiv _ NaN = NaN"
| "jdiv (Num x) _ = Num 0"
| "jdiv PInf (Num y) = (if 0 \<le> y then PInf else NInf)"
| "jdiv NInf (Num y) = (if 0 \<le> y then NInf else PInf)"
| "jdiv _ _ = NaN"

text \<open>\<^verbatim>\<open>Math.sqrt\<close>: NaN below zero.\<close>

fun jsqrt :: "jsnum \<Rightarrow> jsnum" where
  "jsqrt (Num x) = (if x < 0 then NaN else Num (sqrt x))"
| "jsqrt PInf = PInf"
| "jsqrt NInf = NaN"
| "jsqrt NaN = NaN"

text \<open>The comparisons \<^verbatim>\<open><\<close> and \<^verbatim>\<open><=\<close>: false as soon as one side is NaN.\<close>

fun jlt :: "jsnum \<Rightarrow> jsnum \<Rightarrow> bool" where
  "jlt (Num x) (Num y) = (x < y)"
| "jlt NaN _ = False"
| "jlt _ NaN = False"
| "jlt _ NInf = False"
| "jlt PInf _ = False"
| "jlt _ _ = True"

fun jle :: "jsnum \<Rightarrow> jsnum \<Rightarrow> bool" where
  "jle (Num x) (Num y) = (x \<le> y)"
| "jle NaN _ = False"
| "jle _ NaN = False"
| "jle NInf _ = True"
| "jle _ PInf = True"
| "jle _ _ = False"

definition jgt :: "jsnum \<Rightarrow> jsnum \<Rightarrow> bool" where
  "jgt a b = jlt b a"

definition jge :: "jsnum \<Rightarrow> jsnum \<Rightarrow> bool" where
  "jge a b = jle b a"

text \<open>\<^verbatim>\<open>Math.max\<close>, \<^verbatim>\<open>Math.min\<close> and \<^verbatim>\<open>Math.abs\<close>: NaN as soon as an argument is NaN.\<close>

definition jmax :: "jsnum \<Rightarrow> jsnum \<Rightarrow> jsnum" where
  "jmax a b = (if a = NaN \<or> b = NaN then NaN else if jlt a b then b else a)"

definition jmin :: "jsnum \<Rightarrow> jsnum \<Rightarrow> jsnum" where
  "jmin a b = (if a = NaN \<or> b = NaN then NaN else if jlt b a then b else a)"

fun jabs :: "jsnum \<Rightarrow> jsnum" where
  "jabs (Num x) = Num \<bar>x\<bar>"
| "jabs PInf = PInf"
| "jabs NInf = PInf"
| "jabs NaN = NaN"

section \<open>The calculator (class UniswapV3Calculator)\<close>

text \<open>The only exception of the file is \<^verbatim>\<open>new Error(message)\<close>.\<close>

datatype error = Error string

definition toSqrtPrice :: "jsnum \<Rightarrow> jsnum" where
  "toSqrtPrice price = jsqrt price"

definition calculateLiquidity :: "jsnum \<Rightarrow> jsnum \<Rightarrow> jsnum \<Rightarrow> jsnum \<Rightarrow> error + jsnum" where
  "calculateLiquidity entryPrice lpAmount lowerRange upperRange =
     (let sqrtPa = toSqrtPrice lowerRange;
          sqrtPb = toSqrtPrice upperRange;
          sqrtP = toSqrtPrice entryPrice
      in if jlt entryPrice lowerRange \<or> jgt entryPrice upperRange
         then Inl (Error ''Entry price must be within the specified range'')
         else let denominator =
                    jsub (jsub (jmul (Num 2) sqrtP) (jdiv entryPrice sqrtPb)) sqrtPa;
                  liquidity = jdiv lpAmount denominator
              in Inr liquidity)"

record distribution =
  tokenAmount :: jsnum
  usdAmount :: jsnum
  totalValue :: jsnum

definition calculateTokenDistribution ::
  "jsnum \<Rightarrow> jsnum \<Rightarrow> jsnum \<Rightarrow> jsnum \<Rightarrow> distribution" where
  "calculateTokenDistribution currentPrice liquidity lowerRange upperRange =
     (let sqrtPa = toSqrtPrice lowerRange;
          sqrtPb = toSqrtPrice upperRange;
          sqrtP = toSqrtPrice currentPrice;
          (tokenAmount, usdAmount) =
            (if jle currentPrice lowerRange
             then (jmul liquidity (jsub (jdiv (Num 1) sqrtPa) (jdiv (Num 1) sqrtPb)), Num 0)
             else if jge currentPrice upperRange
             then (Num 0, jmul liquidity (jsub sqrtPb sqrtPa))
             else (jmul liquidity (jsub (jdiv (Num 1) sqrtP) (jdiv (Num 1) sqrtPb)),
                   jmul liquidity (jsub sqrtP sqrtPa)));
          totalValue = jadd (jmul tokenAmount currentPrice) usdAmount
      in \<lparr>tokenAmount = jmax (Num 0) tokenAmount,
          usdAmount = jmax (Num 0) usdAmount,
          totalValue = totalValue\<rparr>)"

record position = distribution +
  impermanentLoss :: jsnum
  hodlValue :: jsnum
  liquidity :: jsnum
  initialTokenAmount :: jsnum
  initialUsdAmount :: jsnum
  initialTotalValue :: jsnum

text \<open>
  \<^verbatim>\<open>calculateLPPosition\<close> wraps its whole body in \<^verbatim>\<open>try\<close>; the only statement of
  the body that can throw is the call of \<^verbatim>\<open>calculateLiquidity\<close>, and the
  \<^verbatim>\<open>catch\<close> block returns a record of constants.
\<close>

definition calculateLPPosition ::
  "jsnum \<Rightarrow> jsnum \<Rightarrow> jsnum \<Rightarrow> jsnum \<Rightarrow> jsnum \<Rightarrow> position" where
  "calculateLPPosition currentPrice entryPrice lpAmount lowerRange upperRange =
     (case calculateLiquidity entryPrice lpAmount lowerRange upperRange of
        Inr liq \<Rightarrow>
          (let initialDistribution =
                 calculateTokenDistribution entryPrice liq lowerRange upperRange;
               currentDistribution =
                 calculateTokenDistribution currentPrice liq lowerRange upperRange;
               initialTokenValue = jmul (tokenAmount initialDistribution) entryPrice;
               initialTotal = jadd initialTokenValue (usdAmount initialDistribution);
               hodl = jadd (jmul (tokenAmount initialDistribution) currentPrice)
                           (usdAmount initialDistribution);
               il = (if jle currentPrice lowerRange
                     then (let totalTokensInLP = tokenAmount currentDistribution;
                               hodlTokensEquivalent = jdiv hodl currentPrice
                           in jmul (jsub totalTokensInLP hodlTokensEquivalent) currentPrice)
                     else if jge currentPrice upperRange
                     then (let totalUsdInLP = usdAmount currentDistribution
                           in jsub totalUsdInLP hodl)
                     else jsub (totalValue currentDistribution) hodl)
           in \<lparr>tokenAmount = tokenAmount currentDistribution,
               usdAmount = usdAmount currentDistribution,
               totalValue = totalValue currentDistribution,
               impermanentLoss = il,
               hodlValue = hodl,
               liquidity = liq,
               initialTokenAmount = tokenAmount initialDistribution,
               initialUsdAmount = usdAmount initialDistribution,
               initialTotalValue = initialTotal\<rparr>)
      | Inl err \<Rightarrow>
          \<lparr>tokenAmount = Num 0,
           usdAmount = Num 0,
           totalValue = Num 0,
           impermanentLoss = Num 0,
           hodlValue = Num 10000,
           liquidity = Num 0,
           initialTokenAmount = Num 0,
           initialUsdAmount = Num 0,
           initialTotalValue = Num 10000\<rparr>)"

definition calculateShortPnL :: "jsnum \<Rightarrow> jsnum \<Rightarrow> jsnum \<Rightarrow> jsnum" where
  "calculateShortPnL currentPrice entryPrice shortSize =
     (if jle shortSize (Num 0) then Num 0
      else jmul shortSize (jsub (Num 1) (jdiv currentPrice entryPrice)))"

text \<open>
  \<^verbatim>\<open>calculateOptimalShortSize\<close> has a \<^verbatim>\<open>try\<close> of its own around the call of
  \<^verbatim>\<open>calculateLiquidity\<close>, so it returns a number on every path. Its result is kept
  as a sum so that the \<^verbatim>\<open>try\<close> of its caller \<^verbatim>\<open>calculateMarketBasedShortSizes\<close>
  has something to catch in the model, as it has in the source. The two square roots that
  the source computes after the liquidity and never reads are left out.
\<close>

definition calculateOptimalShortSize ::
  "jsnum \<Rightarrow> jsnum \<Rightarrow> jsnum \<Rightarrow> jsnum \<Rightarrow> error + jsnum" where
  "calculateOptimalShortSize entryPrice lpAmount lowerRange upperRange =
     (case calculateLiquidity entryPrice lpAmount lowerRange upperRange of
        Inr liq \<Rightarrow>
          (let tokenDistribution =
                 calculateTokenDistribution entryPrice liq lowerRange upperRange;
               delta = tokenAmount tokenDistribution;
               optimalShort = jmul delta entryPrice
           in Inr (jmin (jmax optimalShort (jmul lpAmount (Num 0.2)))
                        (jmul lpAmount (Num 0.8))))
      | Inl err \<Rightarrow> Inr (jmul lpAmount (Num 0.25)))"

record hedge_sizing =
  bull :: jsnum
  normal :: jsnum
  bear :: jsnum

definition calculateMarketBasedShortSizes ::
  "jsnum \<Rightarrow> jsnum \<Rightarrow> jsnum \<Rightarrow> jsnum \<Rightarrow> hedge_sizing" where
  "calculateMarketBasedShortSizes entryPrice lpAmount lowerRange upperRange =
     (case calculateOptimalShortSize entryPrice lpAmount lowerRange upperRange of
        Inr normalShort \<Rightarrow>
          (let bullShort = jmul normalShort (Num 0.7);
               bearShort = jmul normalShort (Num 1.4)
           in \<lparr>bull = jmin (jmax bullShort (jmul lpAmount (Num 0.1)))
                             (jmul lpAmount (Num 0.6)),
               normal = normalShort,
               bear = jmin (jmax bearShort (jmul lpAmount (Num 0.3)))
                             (jmul lpAmount (Num 0.9))\<rparr>)
      | Inl err \<Rightarrow>
          \<lparr>bull = jmul lpAmount (Num 0.2),
           normal = jmul lpAmount (Num 0.25),
           bear = jmul lpAmount (Num 0.35)\<rparr>)"

section \<open>Input validation (class CalculatorUtils)\<close>

text \<open>
  \<^verbatim>\<open>validateInputs\<close> pushes one message per failed check onto an array, in the order of
  the six \<^verbatim>\<open>if\<close> statements.
\<close>

definition validateInputs ::
  "jsnum \<Rightarrow> jsnum \<Rightarrow> jsnum \<Rightarrow> jsnum \<Rightarrow> jsnum \<Rightarrow> string list" where
  "validateInputs entryPrice lpAmount lowerRange upperRange shortSize =
     (let errors = [];
          errors = (if jle entryPrice (Num 0)
                    then errors @ [''Entry price must be positive''] else errors);
          errors = (if jle lpAmount (Num 0)
                    then errors @ [''LP amount must be positive''] else errors);
          errors = (if jlt shortSize (Num 0)
                    then errors @ [''Short size cannot be negative''] else errors);
          errors = (if jge lowerRange entryPrice
                    then errors @ [''Lower range must be below entry price''] else errors);
          errors = (if jle upperRange entryPrice
                    then errors @ [''Upper range must be above entry price''] else errors);
          errors = (if jge lowerRange upperRange
                    then errors @ [''Lower range must be below upper range''] else errors)
      in errors)"

section \<open>The scenario table (class TableDataGenerator)\<close>

text \<open>
  The two tables of \<^verbatim>\<open>generatePriceScenarios\<close> are object literals, read with
  \<^verbatim>\<open>ranges[range]\<close> and \<^verbatim>\<open>steps[step]\<close>. Such a read yields the number stored
  under an own key, else whatever the object inherits under that name from
  \<^verbatim>\<open>Object.prototype\<close> (a function, or the prototype itself for \<^verbatim>\<open>__proto__\<close>),
  else \<^verbatim>\<open>undefined\<close>. The value read is a number, \<^verbatim>\<open>undefined\<close> or an object.
\<close>

datatype jsval = Number jsnum | Undefined | Object

definition Object_prototype :: "string list" where
  "Object_prototype =
     [''constructor'', ''hasOwnProperty'', ''isPrototypeOf'', ''propertyIsEnumerable'',
      ''toLocaleString'', ''toString'', ''valueOf'', ''__proto__'',
      ''__defineGetter__'', ''__defineSetter__'', ''__lookupGetter__'', ''__lookupSetter__'']"

definition get_property :: "(string \<times> real) list \<Rightarrow> string \<Rightarrow> jsval" where
  "get_property obj key =
     (case map_of obj key of
        Some v \<Rightarrow> Number (Num v)
      | None \<Rightarrow> if key \<in> set Object_prototype then Object else Undefined)"

text \<open>Truthiness and \<^verbatim>\<open>a || b\<close>; conversion to a number (an object converts to NaN).\<close>

fun truthy :: "jsval \<Rightarrow> bool" where
  "truthy (Number n) = (n \<noteq> Num 0 \<and> n \<noteq> NaN)"
| "truthy Undefined = False"
| "truthy Object = True"

definition js_or :: "jsval \<Rightarrow> jsval \<Rightarrow> jsval" where
  "js_or a b = (if truthy a then a else b)"

fun toNumber :: "jsval \<Rightarrow> jsnum" where
  "toNumber (Number n) = n"
| "toNumber Undefined = NaN"
| "toNumber Object = NaN"

definition ranges :: "(string \<times> real) list" where
  "ranges = [(''narrow'', 25), (''medium'', 50), (''wide'', 75), (''extreme'', 100)]"

definition steps :: "(string \<times> real) list" where
  "steps = [(''fine'', 2.5), (''normal'', 5), (''coarse'', 10)]"

record scenario =
  price :: jsnum
  changePercent :: jsnum

text \<open>
  The \<^verbatim>\<open>for\<close> loop of \<^verbatim>\<open>generatePriceScenarios\<close>. While \<open>i\<close> is a number the test
  \<^verbatim>\<open>i <= maxRange\<close> compares it with \<^verbatim>\<open>maxRange\<close> converted to a number. The update
  \<^verbatim>\<open>i += stepSize\<close> adds numbers; with a \<^verbatim>\<open>stepSize\<close> that is not a number it turns
  \<open>i\<close> into a string that is no numeral, and the next test, of that string against the
  number \<^verbatim>\<open>maxRange\<close>, is false. Nothing bounds the number of iterations, so the loop
  is a partial function: \<open>None\<close> stands for a loop that never ends.
\<close>

partial_function (option) scenarioLoop ::
  "jsnum \<Rightarrow> jsnum \<Rightarrow> jsval \<Rightarrow> jsnum \<Rightarrow> scenario list \<Rightarrow> scenario list option" where
  "scenarioLoop entryPrice maxRange stepSize i scenarios =
     (if jle i maxRange
      then (case stepSize of
              Number s \<Rightarrow>
                scenarioLoop entryPrice maxRange stepSize (jadd i s)
                  (scenarios @
                   [\<lparr>price = jmul entryPrice (jadd (Num 1) (jdiv i (Num 100))),
                     changePercent = i\<rparr>])
            | _ \<Rightarrow>
                Some (scenarios @
                   [\<lparr>price = jmul entryPrice (jadd (Num 1) (jdiv i (Num 100))),
                     changePercent = i\<rparr>]))
      else Some scenarios)"

definition generatePriceScenarios :: "jsnum \<Rightarrow> string \<Rightarrow> string \<Rightarrow> scenario list option" where
  "generatePriceScenarios entryPrice range' step =
     (let maxRange = js_or (get_property ranges range') (Number (Num 50));
          stepSize = js_or (get_property steps step) (Number (Num 5))
      in scenarioLoop entryPrice (toNumber maxRange) stepSize (jneg (toNumber maxRange)) [])"

record row = distribution +
  price :: jsnum
  priceChange :: jsnum
  lpPnL :: jsnum
  shortPnL :: jsnum
  netPnL :: jsnum
  returnPct :: jsnum
  isCurrentPrice :: bool

text \<open>
  \<^verbatim>\<open>generateTableData\<close>; the three optional parameters default to \<open>0\<close> in the source
  and are explicit here.
\<close>

definition generateTableData ::
  "jsnum \<Rightarrow> jsnum \<Rightarrow> jsnum \<Rightarrow> jsnum \<Rightarrow> jsnum \<Rightarrow> string \<Rightarrow> string \<Rightarrow>
   jsnum \<Rightarrow> jsnum \<Rightarrow> jsnum \<Rightarrow> row list option" where
  "generateTableData entryPrice lpAmount lowerRange upperRange shortSize priceRange stepSize
     lpFeeApr duration shortFundingRate =
     (case generatePriceScenarios entryPrice priceRange stepSize of
        None \<Rightarrow> None
      | Some scenarios \<Rightarrow>
          (let lpFees =
                 jmul (jmul lpAmount (jdiv (jdiv lpFeeApr (Num 100)) (Num 365))) duration;
               shortFundingPnl =
                 jmul (jmul shortSize (jdiv shortFundingRate (Num 100))) duration
           in Some (map (\<lambda>sc.
                let lpResult = calculateLPPosition (scenario.price sc) entryPrice lpAmount
                                 lowerRange upperRange;
                    shortPnlFromPrice =
                      calculateShortPnL (scenario.price sc) entryPrice shortSize;
                    totalShortPnl = jadd shortPnlFromPrice shortFundingPnl;
                    lpPnL' = jsub (totalValue lpResult) lpAmount;
                    netPnL' = jadd (jadd lpPnL' totalShortPnl) lpFees;
                    returnPct' = jmul (jdiv netPnL' lpAmount) (Num 100)
                in \<lparr>tokenAmount = tokenAmount lpResult,
                    usdAmount = usdAmount lpResult,
                    totalValue = totalValue lpResult,
                    price = scenario.price sc,
                    priceChange = changePercent sc,
                    lpPnL = lpPnL',
                    shortPnL = totalShortPnl,
                    netPnL = netPnL',
                    returnPct = returnPct',
                    isCurrentPrice = jlt (jabs (changePercent sc)) (Num 0.01)\<rparr>)
              scenarios)))"

section \<open>Square roots of prices\<close>

lemma sqrt_nine: "sqrt 9 = 3"
  by (rule real_sqrt_unique) simp_all




lemma jmax_nonneg: "0 \<le> t \<Longrightarrow> jmax (Num 0) (Num t) = Num t"
  by (simp add: jmax_def)

section \<open>Liquidity derivation\<close>




section \<open>Decomposition at a price\<close>

lemma calculateTokenDistribution_below:
  assumes "0 < a" "a < b" "x \<le> a" "0 \<le> l"
  shows "calculateTokenDistribution (Num x) (Num l) (Num a) (Num b) =
    \<lparr>tokenAmount = Num (l * (1 / sqrt a - 1 / sqrt b)),
     usdAmount = Num 0,
     totalValue = Num (l * (1 / sqrt a - 1 / sqrt b) * x)\<rparr>"
proof -
  have "sqrt a < sqrt b" "0 < sqrt a" "0 < sqrt b"
    using assms by simp_all
  then have t: "0 \<le> l * (1 / sqrt a - 1 / sqrt b)"
    using assms by (simp add: frac_le)
  have nz: "sqrt b \<noteq> 0" "sqrt a \<noteq> 0"
    using assms by simp_all
  show ?thesis
    using assms nz t
    by (simp add: calculateTokenDistribution_def toSqrtPrice_def jge_def jsub_def jmax_nonneg)
qed

lemma calculateTokenDistribution_above:
  assumes "0 < a" "a < b" "b \<le> x" "0 \<le> l"
  shows "calculateTokenDistribution (Num x) (Num l) (Num a) (Num b) =
    \<lparr>tokenAmount = Num 0,
     usdAmount = Num (l * (sqrt b - sqrt a)),
     totalValue = Num (l * (sqrt b - sqrt a))\<rparr>"
proof -
  have "sqrt a < sqrt b"
    using assms by simp
  then have u: "0 \<le> l * (sqrt b - sqrt a)"
    using assms by simp
  show ?thesis
    using assms u
    by (simp add: calculateTokenDistribution_def toSqrtPrice_def jge_def jsub_def jmax_nonneg)
qed

lemma calculateTokenDistribution_inside:
  assumes "0 < a" "a < x" "x < b" "0 \<le> l"
  shows "calculateTokenDistribution (Num x) (Num l) (Num a) (Num b) =
    \<lparr>tokenAmount = Num (l * (1 / sqrt x - 1 / sqrt b)),
     usdAmount = Num (l * (sqrt x - sqrt a)),
     totalValue = Num (l * (1 / sqrt x - 1 / sqrt b) * x + l * (sqrt x - sqrt a))\<rparr>"
proof -
  have "sqrt x < sqrt b" "sqrt a < sqrt x" "0 < sqrt x" "0 < sqrt b"
    using assms by simp_all
  then have t: "0 \<le> l * (1 / sqrt x - 1 / sqrt b)" and u: "0 \<le> l * (sqrt x - sqrt a)"
    using assms by (simp_all add: frac_le)
  have nz: "sqrt x \<noteq> 0" "sqrt b \<noteq> 0" "sqrt a \<noteq> 0"
    using assms by simp_all
  show ?thesis
    using assms nz t u
    by (simp add: calculateTokenDistribution_def toSqrtPrice_def jge_def jsub_def jmax_nonneg)
qed

text \<open>
  C4. For a price \<open>x > 0\<close>, a liquidity \<open>l \<ge> 0\<close> and a range \<open>0 < a < b\<close>,
  \<open>calculateTokenDistribution\<close> has three regimes: at or below \<open>a\<close> the position is
  \<open>l * (1 / sqrt a - 1 / sqrt b)\<close> tokens and no cash; at or above \<open>b\<close> it is no token
  and \<open>l * (sqrt b - sqrt a)\<close> cash; strictly inside it is
  \<open>l * (1 / sqrt x - 1 / sqrt b)\<close> tokens and \<open>l * (sqrt x - sqrt a)\<close> cash. Both
  returned amounts are at least \<open>0\<close>, and the returned total value is the token amount
  times the price plus the cash amount.
\<close>

theorem calculateTokenDistribution_regimes:
  assumes "0 < x" "0 \<le> l" "0 < a" "a < b"
  shows "calculateTokenDistribution (Num x) (Num l) (Num a) (Num b) =
     (if x \<le> a then
        \<lparr>tokenAmount = Num (l * (1 / sqrt a - 1 / sqrt b)),
         usdAmount = Num 0,
         totalValue = Num (l * (1 / sqrt a - 1 / sqrt b) * x)\<rparr>
      else if b \<le> x then
        \<lparr>tokenAmount = Num 0,
         usdAmount = Num (l * (sqrt b - sqrt a)),
         totalValue = Num (l * (sqrt b - sqrt a))\<rparr>
      else
        \<lparr>tokenAmount = Num (l * (1 / sqrt x - 1 / sqrt b)),
         usdAmount = Num (l * (sqrt x - sqrt a)),
         totalValue = Num (l * (1 / sqrt x - 1 / sqrt b) * x + l * (sqrt x - sqrt a))\<rparr>) \<and>
    (\<exists>t c. tokenAmount (calculateTokenDistribution (Num x) (Num l) (Num a) (Num b)) = Num t \<and>
           usdAmount (calculateTokenDistribution (Num x) (Num l) (Num a) (Num b)) = Num c \<and>
           0 \<le> t \<and> 0 \<le> c \<and>
           totalValue (calculateTokenDistribution (Num x) (Num l) (Num a) (Num b)) =
             Num (t * x + c))"
proof -
  have sq: "sqrt a < sqrt b" "0 < sqrt a" "0 < sqrt b"
    using assms by simp_all
  consider (below) "x \<le> a" | (above) "a < x" "b \<le> x" | (inside) "a < x" "x < b"
    by linarith
  then show ?thesis
  proof cases
    case below
    have "0 \<le> l * (1 / sqrt a - 1 / sqrt b)"
      using sq assms by (simp add: frac_le)
    then show ?thesis
      using below assms by (simp add: calculateTokenDistribution_below)
  next
    case above
    have "0 \<le> l * (sqrt b - sqrt a)"
      using sq assms by simp
    then show ?thesis
      using above assms by (simp add: calculateTokenDistribution_above)
  next
    case inside
    have "sqrt x < sqrt b" "sqrt a < sqrt x" "0 < sqrt x"
      using inside assms by simp_all
    then have "0 \<le> l * (1 / sqrt x - 1 / sqrt b)" "0 \<le> l * (sqrt x - sqrt a)"
      using sq assms by (simp_all add: frac_le)
    then show ?thesis
      using inside assms by (simp add: calculateTokenDistribution_inside)
  qed
qed

theorem calculateTokenDistribution_regimes_witness:
  "(0::real) < 4 \<and> (0::real) \<le> 6 \<and> (0::real) < 1 \<and> (1::real) < 9 \<and>
   calculateTokenDistribution (Num 4) (Num 6) (Num 1) (Num 9) =
     \<lparr>tokenAmount = Num 1, usdAmount = Num 6, totalValue = Num 10\<rparr>"
  using calculateTokenDistribution_regimes [of 4 6 1 9]
  by (simp add: sqrt_nine)



section \<open>Short position\<close>



section \<open>Failure paths of the position and hedge-sizing operations\<close>


lemma calculateLPPosition_on_failure:
  assumes "calculateLiquidity e d lo hi = Inl err"
  shows "calculateLPPosition c e d lo hi =
     \<lparr>tokenAmount = Num 0, usdAmount = Num 0, totalValue = Num 0,
      impermanentLoss = Num 0, hodlValue = Num 10000, liquidity = Num 0,
      initialTokenAmount = Num 0, initialUsdAmount = Num 0,
      initialTotalValue = Num 10000\<rparr>"
  using assms by (simp add: calculateLPPosition_def)

text \<open>
  C1. When the liquidity derivation fails, \<open>calculateLPPosition\<close> is to return zeros and a
  \<open>hodlValue\<close> equal to the deposit. Evaluated at current price 2000, entry price 3000
  (above the range 1800 to 2200) and deposit 500: the derivation throws, the error is
  caught, the decomposition, impermanent loss and liquidity are \<open>0\<close>, and \<open>hodlValue\<close> is
  the constant 10000 of the \<^verbatim>\<open>catch\<close> block, not the deposit 500.
\<close>

theorem calculateLPPosition_fallback_hodlValue:
  "calculateLiquidity (Num 3000) (Num 500) (Num 1800) (Num 2200) =
     Inl (Error ''Entry price must be within the specified range'') \<and>
   calculateLPPosition (Num 2000) (Num 3000) (Num 500) (Num 1800) (Num 2200) =
     \<lparr>tokenAmount = Num 0, usdAmount = Num 0, totalValue = Num 0,
      impermanentLoss = Num 0, hodlValue = Num 10000, liquidity = Num 0,
      initialTokenAmount = Num 0, initialUsdAmount = Num 0,
      initialTotalValue = Num 10000\<rparr> \<and>
   hodlValue (calculateLPPosition (Num 2000) (Num 3000) (Num 500) (Num 1800) (Num 2200))
     \<noteq> Num 500"
  by (simp add: calculateLPPosition_def calculateLiquidity_def jgt_def)

text \<open>
  \<open>calculateOptimalShortSize\<close> returns a number on every input, so the \<^verbatim>\<open>catch\<close> block
  of \<open>calculateMarketBasedShortSizes\<close> is never entered: after a failed liquidity
  derivation the regime multipliers and clamps are applied to the fallback \<open>0.25 * d\<close>.
\<close>

lemma calculateOptimalShortSize_returns:
  "\<exists>n. calculateOptimalShortSize e d lo hi = Inr n"
  by (simp add: calculateOptimalShortSize_def Let_def split: sum.split)

lemma calculateMarketBasedShortSizes_on_failure:
  assumes "calculateLiquidity e (Num d) lo hi = Inl err" "0 < d"
  shows "calculateMarketBasedShortSizes e (Num d) lo hi =
     \<lparr>bull = Num (0.175 * d), normal = Num (0.25 * d), bear = Num (0.35 * d)\<rparr>"
  using assms
  by (simp add: calculateMarketBasedShortSizes_def calculateOptimalShortSize_def
        jmin_def jmax_def)

text \<open>
  C6. When hedge sizing meets an internal failure, \<open>calculateMarketBasedShortSizes\<close> is to
  return \<open>0.2\<close>, \<open>0.25\<close> and \<open>0.35\<close> of the deposit. Evaluated at entry price 3000 (above
  the range 1800 to 2200) and deposit 10000: the liquidity derivation throws, and the
  result is bull 1750, normal 2500, bear 3500; bull is not \<open>0.2 * 10000\<close>.
\<close>

theorem calculateMarketBasedShortSizes_fallback_bull:
  "calculateLiquidity (Num 3000) (Num 10000) (Num 1800) (Num 2200) =
     Inl (Error ''Entry price must be within the specified range'') \<and>
   calculateMarketBasedShortSizes (Num 3000) (Num 10000) (Num 1800) (Num 2200) =
     \<lparr>bull = Num 1750, normal = Num 2500, bear = Num 3500\<rparr> \<and>
   bull (calculateMarketBasedShortSizes (Num 3000) (Num 10000) (Num 1800) (Num 2200))
     \<noteq> Num (0.2 * 10000)"
  by (simp add: calculateMarketBasedShortSizes_def calculateOptimalShortSize_def
        calculateLiquidity_def jgt_def jmin_def jmax_def)

section \<open>The denominator of the liquidity derivation is not guarded\<close>





section \<open>Validation\<close>

text \<open>
  C9. \<open>validateInputs 2000 10000 2200 1800 0\<close> (the two range bounds swapped) returns a
  list that contains both "Lower range must be below entry price" and "Lower range must be
  below upper range". On every input the result is the concatenation, in the order of the
  checks, of the messages of all the checks that fail: no check is skipped after an
  earlier one has failed.
\<close>

theorem validateInputs_accumulates:
  "validateInputs (Num 2000) (Num 10000) (Num 2200) (Num 1800) (Num 0) =
     [''Lower range must be below entry price'',
      ''Upper range must be above entry price'',
      ''Lower range must be below upper range''] \<and>
   ''Lower range must be below entry price''
     \<in> set (validateInputs (Num 2000) (Num 10000) (Num 2200) (Num 1800) (Num 0)) \<and>
   ''Lower range must be below upper range''
     \<in> set (validateInputs (Num 2000) (Num 10000) (Num 2200) (Num 1800) (Num 0)) \<and>
   validateInputs entryPrice lpAmount lowerRange upperRange shortSize =
     (if jle entryPrice (Num 0) then [''Entry price must be positive''] else []) @
     (if jle lpAmount (Num 0) then [''LP amount must be positive''] else []) @
     (if jlt shortSize (Num 0) then [''Short size cannot be negative''] else []) @
     (if jge lowerRange entryPrice then [''Lower range must be below entry price''] else []) @
     (if jle upperRange entryPrice then [''Upper range must be above entry price''] else []) @
     (if jge lowerRange upperRange then [''Lower range must be below upper range''] else [])"
  by (simp add: validateInputs_def jge_def)

section \<open>Scenario generation\<close>

lemma generatePriceScenarios_medium_normal:
  "generatePriceScenarios e ''medium'' ''normal'' =
     Some (map (\<lambda>k. \<lparr>scenario.price = jmul e (jadd (Num 1) (jdiv (Num k) (Num 100))),
                       changePercent = Num k\<rparr>)
             [- 50, - 45, - 40, - 35, - 30, - 25, - 20, - 15, - 10, - 5, 0,
              5, 10, 15, 20, 25, 30, 35, 40, 45, 50])"
  by (simp add: generatePriceScenarios_def get_property_def ranges_def steps_def
        js_or_def scenarioLoop.simps)

text \<open>The loop ends for every pair of class names.\<close>

lemma generatePriceScenarios_returns:
  "\<exists>scs. generatePriceScenarios e r s = Some scs"
proof -
  have "js_or (get_property ranges r) (Number (Num 50)) \<in>
          {Number (Num 25), Number (Num 50), Number (Num 75), Number (Num 100), Object}"
    by (simp add: get_property_def ranges_def js_or_def)
  moreover have "js_or (get_property steps s) (Number (Num 5)) \<in>
          {Number (Num 2.5), Number (Num 5), Number (Num 10), Object}"
    by (simp add: get_property_def steps_def js_or_def)
  ultimately show ?thesis
    unfolding generatePriceScenarios_def Let_def
    by (auto simp add: scenarioLoop.simps)
qed

text \<open>
  Each row of the table takes its price and percentage from its scenario, in the order of
  the scenarios.
\<close>

lemma generateTableData_columns:
  assumes "generatePriceScenarios e r s = Some scs"
  shows "\<exists>rows. generateTableData e lp lo hi ss r s fee dur fr = Some rows \<and>
           length rows = length scs \<and>
           map priceChange rows = map changePercent scs \<and>
           map row.price rows = map scenario.price scs \<and>
           map isCurrentPrice rows =
             map (\<lambda>sc. jlt (jabs (changePercent sc)) (Num 0.01)) scs"
  using assms by (simp add: generateTableData_def Let_def o_def)

text \<open>
  C7. With range class \<open>medium\<close> and step class \<open>normal\<close>, \<open>generateTableData\<close> returns
  exactly 21 rows, one per percentage \<open>k\<close> from \<open>-50\<close> to \<open>50\<close> in steps of \<open>5\<close>, in
  ascending order of \<open>k\<close> and symmetric around \<open>0\<close>; the price of each row is
  \<open>p * (1 + k / 100)\<close> for the entry price \<open>p\<close>, and exactly the row of \<open>k = 0\<close> is flagged
  as the current price.
\<close>

theorem generateTableData_medium_normal:
  "let ks = [- 50, - 45, - 40, - 35, - 30, - 25, - 20, - 15, - 10, - 5, 0,
             5, 10, 15, 20, 25, 30, 35, 40, 45, 50 :: real]
   in (\<exists>rows. generateTableData (Num p) lpAmount lowerRange upperRange shortSize
                  ''medium'' ''normal'' lpFeeApr duration shortFundingRate = Some rows \<and>
         length rows = 21 \<and>
         map priceChange rows = map Num ks \<and>
         map row.price rows = map (\<lambda>k. Num (p * (1 + k / 100))) ks \<and>
         map isCurrentPrice rows = map (\<lambda>k. k = 0) ks) \<and>
      sorted_wrt (<) ks \<and> map uminus (rev ks) = ks"
proof -
  obtain rows where
    "generateTableData (Num p) lpAmount lowerRange upperRange shortSize
       ''medium'' ''normal'' lpFeeApr duration shortFundingRate = Some rows"
    "length rows = 21"
    "map priceChange rows =
       map Num [- 50, - 45, - 40, - 35, - 30, - 25, - 20, - 15, - 10, - 5, 0,
                5, 10, 15, 20, 25, 30, 35, 40, 45, 50]"
    "map row.price rows =
       map (\<lambda>k. Num (p * (1 + k / 100)))
         [- 50, - 45, - 40, - 35, - 30, - 25, - 20, - 15, - 10, - 5, 0,
          5, 10, 15, 20, 25, 30, 35, 40, 45, 50]"
    "map isCurrentPrice rows =
       map (\<lambda>k. k = 0)
         [- 50, - 45, - 40, - 35, - 30, - 25, - 20, - 15, - 10, - 5, 0,
          5, 10, 15, 20, 25, 30, 35, 40, 45, 50 :: real]"
    using generateTableData_columns [OF generatePriceScenarios_medium_normal,
            of "Num p" lpAmount lowerRange upperRange shortSize lpFeeApr duration
               shortFundingRate]
    by auto
  then show ?thesis
    by (simp add: Let_def)
qed

section \<open>Class names the tables do not hold\<close>

lemma get_property_unknown:
  assumes "key \<notin> fst ` set obj" "key \<notin> set Object_prototype"
  shows "js_or (get_property obj key) dflt = dflt"
proof -
  have "map_of obj key = None"
    using assms(1) by (simp add: map_of_eq_None_iff)
  then show ?thesis
    using assms(2) by (simp add: get_property_def js_or_def)
qed

text \<open>
  A name that is neither a key of the table nor a property inherited from
  \<^verbatim>\<open>Object.prototype\<close> reads as \<^verbatim>\<open>undefined\<close>, and the defaults 50 and 5 apply.
\<close>

lemma generatePriceScenarios_fallback:
  assumes "r \<notin> {''narrow'', ''medium'', ''wide'', ''extreme''}"
      and "s \<notin> {''fine'', ''normal'', ''coarse''}"
      and "r \<notin> set Object_prototype" "s \<notin> set Object_prototype"
  shows "generatePriceScenarios e r s = generatePriceScenarios e ''medium'' ''normal''"
proof -
  have "js_or (get_property ranges r) (Number (Num 50)) = Number (Num 50)"
    using assms by (intro get_property_unknown) (simp_all add: ranges_def)
  moreover have "js_or (get_property steps s) (Number (Num 5)) = Number (Num 5)"
    using assms by (intro get_property_unknown) (simp_all add: steps_def)
  moreover have "js_or (get_property ranges ''medium'') (Number (Num 50)) = Number (Num 50)"
    by (simp add: get_property_def ranges_def js_or_def)
  moreover have "js_or (get_property steps ''normal'') (Number (Num 5)) = Number (Num 5)"
    by (simp add: get_property_def steps_def js_or_def)
  ultimately show ?thesis
    by (simp add: generatePriceScenarios_def)
qed

text \<open>
  C10. For a range class and a step class outside the tables, \<open>generatePriceScenarios\<close> is
  to fall back to the sweep of \<open>medium\<close> and \<open>normal\<close>. Evaluated at the range class
  \<open>constructor\<close> and the step class \<open>bogus\<close>, neither of them a key of its table: the read
  \<^verbatim>\<open>ranges[range]\<close> yields the inherited function, which is truthy, so the default 50
  is not taken; its negation is NaN, the loop test fails at once, and the table is empty,
  unlike the table of \<open>medium\<close> and \<open>normal\<close>.
\<close>

theorem generatePriceScenarios_inherited_name:
  "generatePriceScenarios (Num 2000) ''constructor'' ''bogus'' = Some [] \<and>
   generateTableData (Num 2000) (Num 10000) (Num 1800) (Num 2200) (Num 0)
     ''constructor'' ''bogus'' (Num 0) (Num 0) (Num 0) = Some [] \<and>
   generateTableData (Num 2000) (Num 10000) (Num 1800) (Num 2200) (Num 0)
     ''constructor'' ''bogus'' (Num 0) (Num 0) (Num 0) \<noteq>
   generateTableData (Num 2000) (Num 10000) (Num 1800) (Num 2200) (Num 0)
     ''medium'' ''normal'' (Num 0) (Num 0) (Num 0)"
proof -
  have sc: "generatePriceScenarios (Num 2000) ''constructor'' ''bogus'' = Some []"
    by (simp add: generatePriceScenarios_def get_property_def ranges_def steps_def
          Object_prototype_def js_or_def scenarioLoop.simps)
  then have tb: "generateTableData (Num 2000) (Num 10000) (Num 1800) (Num 2200) (Num 0)
     ''constructor'' ''bogus'' (Num 0) (Num 0) (Num 0) = Some []"
    by (simp add: generateTableData_def)
  have "generatePriceScenarios (Num 2000) ''medium'' ''normal'' \<noteq> Some []"
    by (simp add: generatePriceScenarios_medium_normal)
  then have "generateTableData (Num 2000) (Num 10000) (Num 1800) (Num 2200) (Num 0)
     ''medium'' ''normal'' (Num 0) (Num 0) (Num 0) \<noteq> Some []"
    by (auto simp add: generateTableData_def Let_def split: option.splits)
  with sc tb show ?thesis
    by simp
qed

end
